theory Spec2Isabelle
  imports Main "HOL-Library.Multiset" "HOL-Library.Sublist"
begin

section \<open>Data model\<close>

text \<open>
  The module \<^verbatim>\<open>src/api/chrome.js\<close> keeps a list of snooze objects per user and one
  badge counter in \<^verbatim>\<open>chrome.storage.sync\<close>. The theory follows it on two levels.

  The first level takes the store as typed: a user's key holds an array of snooze objects,
  the counter's key holds an integer, and numbers stay inside JavaScript's exact range, so
  that they are modelled as \<open>int\<close>. All list operations are modelled there.

  The second level (section \<open>The module on any content of the store\<close>) follows the
  functions that read the store where that typing does not hold: one key space, in which a
  user id may be the counter's key or the name of an inherited property, numbers that are
  doubles, and values that become strings. The lemmas \<open>untyped_getSnoozeList\<close>,
  \<open>untyped_setSnoozeList\<close>, \<open>untyped_getBadgeCounter\<close> and
  \<open>untyped_incrementBadgeCounter\<close> say where the first level is the second.

  Strings are sequences of code units; \<open>length\<close> is \<^verbatim>\<open>.length\<close>. An identifier is a
  number or a string. Equality of the datatype is JavaScript's strict equality on such
  values: a number never equals a string.
\<close>

datatype ident = IdNum int | IdStr string

record snooze =
  id' :: ident
  url :: string
  notifyAt :: int
  badgeCount :: bool

text \<open>The two action names that the module imports from \<^verbatim>\<open>../constants\<close>.\<close>

datatype action = ACTION_UPDATE_BADGE_COUNTER | ACTION_GET_CURRENT_TAB_URL

text \<open>One call of \<^verbatim>\<open>chrome.storage.sync.set\<close>: the key written and its value.\<close>

datatype sync_set = SetArray string "snooze list" | SetNumber string int

text \<open>
  The part of the browser that the module reads and writes, on the first level. The synced
  store is one key space; here a key holds either an array of snooze objects (a user's key)
  or a number (the badge counter's key), so the store is kept as two maps, one per kind of
  value, and a user key is never a key that holds a number. \<open>syncSets\<close> records every
  write to the synced store in order, \<open>messages\<close> every message handed to
  \<^verbatim>\<open>chrome.runtime.sendMessage\<close>, and the last two fields are what \<^verbatim>\<open>chrome.action\<close> shows
  on the badge (\<open>None\<close> until it is set). The platform calls are taken to succeed.
\<close>

record chrome =
  syncArrays :: "string \<rightharpoonup> snooze list"
  syncNumbers :: "string \<rightharpoonup> int"
  syncSets :: "sync_set list"
  messages :: "(action \<times> int) list"
  badgeText :: "string option"
  badgeBackgroundColor :: "string option"

text \<open>
  Modelled from the spec: the constant \<^verbatim>\<open>SK_BADGE_COUNTER\<close> of \<^verbatim>\<open>../constants\<close> is not part
  of the sources at hand. The spec stores the counter "under a well-known key", and the
  module writes it with the object literal \<^verbatim>\<open>{ badgeCounter }\<close>, so the key read is taken to
  be the key written.
\<close>

definition SK_BADGE_COUNTER :: string where
  "SK_BADGE_COUNTER = ''badgeCounter''"

section \<open>Platform pass-throughs\<close>


text \<open>\<^verbatim>\<open>chrome.storage.sync.get(keys)\<close>: the entries of the listed keys only.\<close>

definition readFromSyncStorage :: "string list \<Rightarrow> chrome \<Rightarrow> (string \<rightharpoonup> int)" where
  "readFromSyncStorage keys c = (\<lambda>k. if k \<in> set keys then syncNumbers c k else None)"

text \<open>\<^verbatim>\<open>chrome.storage.sync.set(obj)\<close> for an object with one numeric property.\<close>

definition writeToSyncStorage :: "string \<Rightarrow> int \<Rightarrow> chrome \<Rightarrow> chrome" where
  "writeToSyncStorage k v c =
     c\<lparr>syncNumbers := (syncNumbers c)(k \<mapsto> v), syncSets := syncSets c @ [SetNumber k v]\<rparr>"

section \<open>Snooze list\<close>

text \<open>
  \<^verbatim>\<open>Array.prototype.sort\<close> with the comparator \<^verbatim>\<open>x.notifyAt - y.notifyAt\<close> is a stable sort
  by \<open>notifyAt\<close>, as \<open>sort_key\<close> is. The store hands out a copy, so sorting it does not
  change what is stored. An array, also an empty one, is truthy; only a missing entry takes
  the second return.
\<close>

definition getSnoozeList :: "string \<Rightarrow> chrome \<Rightarrow> snooze list" where
  "getSnoozeList userId c =
     (case syncArrays c userId of
        Some stored \<Rightarrow> sort_key notifyAt stored
      | None \<Rightarrow> [])"

definition setSnoozeList :: "string \<Rightarrow> snooze list \<Rightarrow> chrome \<Rightarrow> chrome" where
  "setSnoozeList userId snoozeList c =
     c\<lparr>syncArrays := (syncArrays c)(userId \<mapsto> snoozeList),
       syncSets := syncSets c @ [SetArray userId snoozeList]\<rparr>"

text \<open>
  \<open>addSnooze\<close> stores the list as it is after \<^verbatim>\<open>push\<close> and sorts only the array it returns.
  The test \<^verbatim>\<open>!snoozeList\<close> is never true, since \<open>getSnoozeList\<close> always returns an array.
\<close>

definition addSnooze :: "string \<Rightarrow> snooze \<Rightarrow> chrome \<Rightarrow> snooze list \<times> chrome" where
  "addSnooze userId snooze c =
     (let snoozeList = getSnoozeList userId c;
          snoozeList = snoozeList @ [snooze];
          c = setSnoozeList userId snoozeList c
      in (sort_key notifyAt snoozeList, c))"

section \<open>Badge counter\<close>

text \<open>
  A parameter with a default value is an \<open>option\<close>: \<open>None\<close> is the call without the
  argument. \<^verbatim>\<open>!badgeCounter\<close> holds for a missing entry and for the number 0.
\<close>

definition getBadgeCounter :: "int option \<Rightarrow> chrome \<Rightarrow> int \<times> chrome" where
  "getBadgeCounter initialValue c =
     (let initialValue = (case initialValue of None \<Rightarrow> 0 | Some v \<Rightarrow> v);
          badgeCounter = readFromSyncStorage [SK_BADGE_COUNTER] c ''badgeCounter''
      in case badgeCounter of
           None \<Rightarrow> (0, writeToSyncStorage ''badgeCounter'' initialValue c)
         | Some n \<Rightarrow>
             if n = 0 then (0, writeToSyncStorage ''badgeCounter'' initialValue c)
             else (n, c))"

definition incrementBadgeCounter :: "int option \<Rightarrow> chrome \<Rightarrow> int \<times> chrome" where
  "incrementBadgeCounter increment c =
     (let increment = (case increment of None \<Rightarrow> 1 | Some d \<Rightarrow> d);
          (badgeCounter, c) = getBadgeCounter None c;
          badgeCounter = badgeCounter + increment;
          c = writeToSyncStorage ''badgeCounter'' badgeCounter c
      in (badgeCounter, c))"

section \<open>Removing and updating\<close>



section \<open>Numbers and strings of the language\<close>

text \<open>
  \<^verbatim>\<open>checkUrlAlreadySnoozed\<close> compares a number with a string, and the language then
  converts the string to a number (StringToNumber of ECMAScript): white space is trimmed, the
  empty string is 0, a decimal literal (optional sign, digits, fraction, exponent),
  \<^verbatim>\<open>Infinity\<close> or an unsigned literal in base 16, 8 or 2 has its value, and every other
  string is \<^verbatim>\<open>NaN\<close>. \<open>Decimal m e\<close> is the number \<open>m * 10 ^ e\<close>; the value of a literal is
  kept exact, its rounding to a double is left out.
\<close>

datatype number = NaN | Decimal int int | PlusInfinity | MinusInfinity

definition isStrWhiteSpaceChar :: "char \<Rightarrow> bool" where
  "isStrWhiteSpaceChar ch = (of_char ch \<in> {9, 10, 11, 12, 13, 32, 160 :: nat})"

definition trimString :: "string \<Rightarrow> string" where
  "trimString s =
     rev (dropWhile isStrWhiteSpaceChar (rev (dropWhile isStrWhiteSpaceChar s)))"

definition digitValue :: "char \<Rightarrow> nat option" where
  "digitValue ch =
     (let n = (of_char ch :: nat)
      in if 48 \<le> n \<and> n \<le> 57 then Some (n - 48)
         else if 97 \<le> n \<and> n \<le> 102 then Some (n - 87)
         else if 65 \<le> n \<and> n \<le> 70 then Some (n - 55)
         else None)"

definition isDigit :: "nat \<Rightarrow> char \<Rightarrow> bool" where
  "isDigit base ch = (case digitValue ch of None \<Rightarrow> False | Some d \<Rightarrow> d < base)"

definition digitsValue :: "nat \<Rightarrow> string \<Rightarrow> int" where
  "digitsValue base ds =
     foldl (\<lambda>a ch. case digitValue ch of None \<Rightarrow> a | Some d \<Rightarrow> a * int base + int d) 0 ds"

definition DecimalDigits :: "string \<Rightarrow> int option" where
  "DecimalDigits ds =
     (if ds \<noteq> [] \<and> list_all (isDigit 10) ds then Some (digitsValue 10 ds) else None)"

fun ExponentPart :: "string \<Rightarrow> int option" where
  "ExponentPart [] = Some 0"
| "ExponentPart (ch # rest) =
     (if ch = CHR ''e'' \<or> ch = CHR ''E''
      then (case rest of
              [] \<Rightarrow> None
            | sign # ds \<Rightarrow>
                if sign = CHR ''+'' then DecimalDigits ds
                else if sign = CHR ''-'' then map_option uminus (DecimalDigits ds)
                else DecimalDigits rest)
      else None)"

definition StrUnsignedDecimalLiteral :: "string \<Rightarrow> number" where
  "StrUnsignedDecimalLiteral s =
     (if s = ''Infinity'' then PlusInfinity
      else
        let intPart = takeWhile (isDigit 10) s;
            rest = dropWhile (isDigit 10) s;
            (fracPart, rest) =
              (case rest of
                 [] \<Rightarrow> ([], [])
               | ch # r \<Rightarrow>
                   if ch = CHR ''.''
                   then (takeWhile (isDigit 10) r, dropWhile (isDigit 10) r)
                   else ([], rest))
        in if intPart = [] \<and> fracPart = [] then NaN
           else (case ExponentPart rest of
                   None \<Rightarrow> NaN
                 | Some e \<Rightarrow>
                     Decimal (digitsValue 10 (intPart @ fracPart)) (e - int (length fracPart))))"

fun negate :: "number \<Rightarrow> number" where
  "negate NaN = NaN"
| "negate (Decimal m e) = Decimal (- m) e"
| "negate PlusInfinity = MinusInfinity"
| "negate MinusInfinity = PlusInfinity"

definition StrDecimalLiteral :: "string \<Rightarrow> number" where
  "StrDecimalLiteral s =
     (case s of
        [] \<Rightarrow> NaN
      | ch # r \<Rightarrow>
          if ch = CHR ''+'' then StrUnsignedDecimalLiteral r
          else if ch = CHR ''-'' then negate (StrUnsignedDecimalLiteral r)
          else StrUnsignedDecimalLiteral s)"

definition NonDecimalIntegerLiteral :: "nat \<Rightarrow> string \<Rightarrow> number" where
  "NonDecimalIntegerLiteral base ds =
     (if ds \<noteq> [] \<and> list_all (isDigit base) ds then Decimal (digitsValue base ds) 0 else NaN)"

definition StrNumericLiteral :: "string \<Rightarrow> number" where
  "StrNumericLiteral s =
     (case s of
        c0 # c1 # ds \<Rightarrow>
          if c0 = CHR ''0'' \<and> (c1 = CHR ''x'' \<or> c1 = CHR ''X'') then NonDecimalIntegerLiteral 16 ds
          else if c0 = CHR ''0'' \<and> (c1 = CHR ''o'' \<or> c1 = CHR ''O'') then NonDecimalIntegerLiteral 8 ds
          else if c0 = CHR ''0'' \<and> (c1 = CHR ''b'' \<or> c1 = CHR ''B'') then NonDecimalIntegerLiteral 2 ds
          else StrDecimalLiteral s
      | _ \<Rightarrow> StrDecimalLiteral s)"

definition StringToNumber :: "string \<Rightarrow> number" where
  "StringToNumber s =
     (let t = trimString s in if t = [] then Decimal 0 0 else StrNumericLiteral t)"

text \<open>\<^verbatim>\<open>n > y\<close> for a length \<open>n\<close>: false when \<open>y\<close> is \<^verbatim>\<open>NaN\<close>.\<close>

fun greaterThan :: "nat \<Rightarrow> number \<Rightarrow> bool" where
  "greaterThan n NaN = False"
| "greaterThan n (Decimal m e) =
     (if 0 \<le> e then m * 10 ^ nat e < int n else m < int n * 10 ^ nat (- e))"
| "greaterThan n PlusInfinity = False"
| "greaterThan n MinusInfinity = True"

definition startsWith :: "string \<Rightarrow> string \<Rightarrow> bool" where
  "startsWith s searchString = (take (length searchString) s = searchString)"

section \<open>Query and badge display\<close>

text \<open>
  The first branch of the callback compares \<^verbatim>\<open>snoozeUrl.length\<close> with the string \<^verbatim>\<open>url\<close>
  itself, as the source does. \<^verbatim>\<open>find\<close> yields \<^verbatim>\<open>undefined\<close> exactly when no element passes.
\<close>

definition checkUrlAlreadySnoozed :: "string \<Rightarrow> string \<Rightarrow> chrome \<Rightarrow> bool" where
  "checkUrlAlreadySnoozed userId url' c =
     (let snoozeList = getSnoozeList userId c;
          snoozeFound = find (\<lambda>snooze.
             let snoozeUrl = url snooze
             in if greaterThan (length snoozeUrl) (StringToNumber url')
                then startsWith snoozeUrl url'
                else startsWith url' snoozeUrl) snoozeList
      in snoozeFound \<noteq> None)"

section \<open>The module on any content of the store\<close>

text \<open>
  \<^verbatim>\<open>chrome.storage.sync\<close> is one key space, and the module never checks what it finds
  there. A key holds an array of snooze objects, a number or a string: the three kinds of
  value that the module itself writes. The store is taken to hand back each value as it was
  set, and the platform calls are taken to succeed; what can fail is the module's own
  \<^verbatim>\<open>storage[userId].sort(...)\<close>, which raises a \<^verbatim>\<open>TypeError\<close> when the value has no method
  \<^verbatim>\<open>sort\<close>.
\<close>

datatype error = TypeError

text \<open>
  A number of the language, as far as the counter can reach it: the counter starts at 0 and
  moves by integer steps, so it is an integer-valued double, an infinity (after overflow) or
  \<^verbatim>\<open>NaN\<close>. \<open>Num i\<close> is a number of the language when \<open>i\<close> is a double, that is when
  \<open>toDouble i = Num i\<close> below.
\<close>

datatype jsnum = Num int | PosInfinity | NegInfinity | NumNaN

datatype jsvalue = JArray "snooze list" | JNumber jsnum | JString string

text \<open>
  What \<^verbatim>\<open>storage[key]\<close> finds: nothing, a stored value, or a member that every object
  inherits from \<^verbatim>\<open>Object.prototype\<close> (a function, or for \<^verbatim>\<open>__proto__\<close> the prototype itself).
  A stored value hides an inherited member of the same name.
\<close>

datatype property = Undefined | Own jsvalue | Inherited

record browser =
  syncItems :: "string \<rightharpoonup> jsvalue"
  syncSetCalls :: "(string \<times> jsvalue) list"
  runtimeMessages :: "(action \<times> jsvalue) list"
  actionBadgeText :: "string option"
  actionBadgeBackgroundColor :: "string option"

definition objectPrototypeKeys :: "string list" where
  "objectPrototypeKeys =
     [''constructor'', ''__defineGetter__'', ''__defineSetter__'', ''hasOwnProperty'',
      ''__lookupGetter__'', ''__lookupSetter__'', ''isPrototypeOf'', ''propertyIsEnumerable'',
      ''toString'', ''valueOf'', ''__proto__'', ''toLocaleString'']"

definition getProperty :: "(string \<rightharpoonup> jsvalue) \<Rightarrow> string \<Rightarrow> property" where
  "getProperty obj key =
     (case obj key of
        Some v \<Rightarrow> Own v
      | None \<Rightarrow> if key \<in> set objectPrototypeKeys then Inherited else Undefined)"

subsection \<open>Doubles\<close>

text \<open>
  \<open>bitLength i\<close> is the number of binary digits of a positive integer. \<open>roundMagnitude\<close>
  rounds a non-negative integer to the nearest double, ties to the even significand of 53
  bits; \<open>toDouble\<close> adds the sign and the overflow to an infinity from \<open>2 ^ 1024\<close>.
  The sum of two integer-valued doubles is their exact sum, rounded.
\<close>

function bitLength :: "int \<Rightarrow> nat" where
  "bitLength i = (if i \<le> 0 then 0 else Suc (bitLength (i div 2)))"
  by pat_completeness auto
termination
  by (relation "measure nat") auto

declare bitLength.simps [simp del]

definition roundMagnitude :: "int \<Rightarrow> int" where
  "roundMagnitude v =
     (if bitLength v \<le> 53 then v
      else
        let shift = bitLength v - 53;
            q = v div 2 ^ shift;
            r = v mod 2 ^ shift;
            half = 2 ^ (shift - 1);
            q = (if half < r \<or> (r = half \<and> odd q) then q + 1 else q)
        in q * 2 ^ shift)"

definition toDouble :: "int \<Rightarrow> jsnum" where
  "toDouble i =
     (let m = roundMagnitude \<bar>i\<bar>
      in if 2 ^ 1024 \<le> m then (if i < 0 then NegInfinity else PosInfinity)
         else Num (if i < 0 then - m else m))"

fun numberAdd :: "jsnum \<Rightarrow> jsnum \<Rightarrow> jsnum" where
  "numberAdd (Num a) (Num b) = toDouble (a + b)"
| "numberAdd NumNaN y = NumNaN"
| "numberAdd x NumNaN = NumNaN"
| "numberAdd PosInfinity NegInfinity = NumNaN"
| "numberAdd NegInfinity PosInfinity = NumNaN"
| "numberAdd PosInfinity y = PosInfinity"
| "numberAdd x PosInfinity = PosInfinity"
| "numberAdd NegInfinity y = NegInfinity"
| "numberAdd x NegInfinity = NegInfinity"

subsection \<open>Printing a number\<close>

text \<open>
  \<^verbatim>\<open>Number.prototype.toString\<close> prints the shortest decimal numeral that reads back as the
  same double, and among those the nearest one. \<open>digits\<close> are the decimal digits of a
  non-negative integer. \<open>shortestFrom k d x\<close> looks for that numeral with \<open>k\<close>, \<open>k + 1\<close>,
  ... significant digits, for a double \<open>x\<close> of \<open>d\<close> digits: the candidates with \<open>k\<close>
  digits are the multiples of \<open>10 ^ (d - k)\<close> on either side of \<open>x\<close>. Up to 21 digits
  the numeral is printed in full, beyond that as significand and exponent.
\<close>

function digits :: "int \<Rightarrow> string" where
  "digits i =
     (if i < 10 then [char_of (48 + i)]
      else digits (i div 10) @ [char_of (48 + i mod 10)])"
  by pat_completeness auto
termination
  by (relation "measure nat") auto

declare digits.simps [simp del]

function shortestFrom :: "nat \<Rightarrow> nat \<Rightarrow> int \<Rightarrow> int" where
  "shortestFrom k d x =
     (if d \<le> k then x
      else
        let p = 10 ^ (d - k);
            lo = (x div p) * p;
            hi = lo + p;
            okLo = (roundMagnitude lo = x);
            okHi = (roundMagnitude hi = x)
        in if okLo \<and> okHi
           then (if x - lo < hi - x then lo
                 else if hi - x < x - lo then hi
                 else if even (x div p) then lo else hi)
           else if okLo then lo
           else if okHi then hi
           else shortestFrom (Suc k) d x)"
  by pat_completeness auto
termination
  by (relation "measure (\<lambda>(k, d, x). d - k)") auto

declare shortestFrom.simps [simp del]

definition magnitudeToString :: "int \<Rightarrow> string" where
  "magnitudeToString x =
     (let v = shortestFrom 1 (length (digits x)) x;
          ds = digits v;
          n = length ds
      in if n \<le> 21 then ds
         else
           (case rev (dropWhile (\<lambda>ch. ch = CHR ''0'') (rev ds)) of
              [] \<Rightarrow> ds
            | [s] \<Rightarrow> [s] @ ''e+'' @ digits (int n - 1)
            | s # fraction \<Rightarrow> [s] @ ''.'' @ fraction @ ''e+'' @ digits (int n - 1)))"

fun numberToString :: "jsnum \<Rightarrow> string" where
  "numberToString NumNaN = ''NaN''"
| "numberToString PosInfinity = ''Infinity''"
| "numberToString NegInfinity = ''-Infinity''"
| "numberToString (Num i) =
     (if i < 0 then CHR ''-'' # magnitudeToString (- i) else magnitudeToString i)"

subsection \<open>Truth, addition and comparison of values\<close>

text \<open>
  Falsy are \<^verbatim>\<open>undefined\<close>, the numbers 0 and \<^verbatim>\<open>NaN\<close> and the empty string; an array, also
  an empty one, and an inherited member are truthy. Only an array has the method \<^verbatim>\<open>sort\<close>.
\<close>

fun truthy :: "property \<Rightarrow> bool" where
  "truthy Undefined = False"
| "truthy Inherited = True"
| "truthy (Own (JArray xs)) = True"
| "truthy (Own (JNumber n)) = (n \<noteq> Num 0 \<and> n \<noteq> NumNaN)"
| "truthy (Own (JString s)) = (s \<noteq> [])"

fun sortByNotifyAt :: "property \<Rightarrow> error + snooze list" where
  "sortByNotifyAt (Own (JArray xs)) = Inr (sort_key notifyAt xs)"
| "sortByNotifyAt p = Inl TypeError"

text \<open>
  An array turns into a string by joining its elements with commas; a snooze object prints
  as \<^verbatim>\<open>[object Object]\<close>. \<^verbatim>\<open>badgeCounter += increment\<close> adds two numbers and otherwise
  appends the printed increment to the string that the counter is or turns into.
\<close>

fun join :: "string list \<Rightarrow> string" where
  "join [] = []"
| "join [s] = s"
| "join (s # rest) = s @ '','' @ join rest"

definition arrayToString :: "snooze list \<Rightarrow> string" where
  "arrayToString xs = join (map (\<lambda>snooze. ''[object Object]'') xs)"

fun plus :: "jsvalue \<Rightarrow> jsnum \<Rightarrow> jsvalue" where
  "plus (JNumber x) y = JNumber (numberAdd x y)"
| "plus (JString s) y = JString (s @ numberToString y)"
| "plus (JArray xs) y = JString (arrayToString xs @ numberToString y)"

text \<open>
  \<^verbatim>\<open>badgeCounter > 0\<close> converts a string (or the string of an array) to a number first. The
  numeral \<open>m * 10 ^ e\<close> is greater than 0 as a double when it is positive and not rounded
  to 0, that is when it is above \<open>2 ^ -1075\<close>.
\<close>

definition stringGreaterThanZero :: "string \<Rightarrow> bool" where
  "stringGreaterThanZero s =
     (case StringToNumber s of
        Decimal m e \<Rightarrow> 0 < m \<and> (0 \<le> e \<or> 10 ^ nat (- e) < m * 2 ^ 1075)
      | PlusInfinity \<Rightarrow> True
      | _ \<Rightarrow> False)"

fun greaterThanZero :: "jsvalue \<Rightarrow> bool" where
  "greaterThanZero (JNumber (Num i)) = (0 < i)"
| "greaterThanZero (JNumber PosInfinity) = True"
| "greaterThanZero (JNumber n) = False"
| "greaterThanZero (JString s) = stringGreaterThanZero s"
| "greaterThanZero (JArray xs) = stringGreaterThanZero (arrayToString xs)"

fun toStringMethod :: "jsvalue \<Rightarrow> string" where
  "toStringMethod (JNumber n) = numberToString n"
| "toStringMethod (JString s) = s"
| "toStringMethod (JArray xs) = arrayToString xs"

subsection \<open>The functions\<close>

definition sendMessage_raw :: "action \<Rightarrow> jsvalue \<Rightarrow> browser \<Rightarrow> browser" where
  "sendMessage_raw act message b = b\<lparr>runtimeMessages := runtimeMessages b @ [(act, message)]\<rparr>"

definition readFromSyncStorage_raw :: "string list \<Rightarrow> browser \<Rightarrow> (string \<rightharpoonup> jsvalue)" where
  "readFromSyncStorage_raw keys b = (\<lambda>k. if k \<in> set keys then syncItems b k else None)"

definition writeToSyncStorage_raw :: "string \<Rightarrow> jsvalue \<Rightarrow> browser \<Rightarrow> browser" where
  "writeToSyncStorage_raw k v b =
     b\<lparr>syncItems := (syncItems b)(k \<mapsto> v), syncSetCalls := syncSetCalls b @ [(k, v)]\<rparr>"

definition getSnoozeList_raw :: "string \<Rightarrow> browser \<Rightarrow> error + snooze list" where
  "getSnoozeList_raw userId b =
     (let storage = syncItems b
      in if truthy (getProperty storage userId)
         then sortByNotifyAt (getProperty storage userId)
         else Inr [])"

definition setSnoozeList_raw :: "string \<Rightarrow> snooze list \<Rightarrow> browser \<Rightarrow> browser" where
  "setSnoozeList_raw userId snoozeList b =
     b\<lparr>syncItems := (syncItems b)(userId \<mapsto> JArray snoozeList),
       syncSetCalls := syncSetCalls b @ [(userId, JArray snoozeList)]\<rparr>"

text \<open>
  The name \<^verbatim>\<open>badgeCounter\<close> that the destructuring reads is not an inherited one, so it
  finds a stored value or nothing.
\<close>

definition getBadgeCounter_raw :: "jsnum option \<Rightarrow> browser \<Rightarrow> jsvalue \<times> browser" where
  "getBadgeCounter_raw initialValue b =
     (let initialValue = (case initialValue of None \<Rightarrow> Num 0 | Some v \<Rightarrow> v);
          badgeCounter = readFromSyncStorage_raw [SK_BADGE_COUNTER] b ''badgeCounter''
      in case badgeCounter of
           None \<Rightarrow>
             (JNumber (Num 0), writeToSyncStorage_raw ''badgeCounter'' (JNumber initialValue) b)
         | Some v \<Rightarrow>
             if \<not> truthy (Own v)
             then (JNumber (Num 0),
                   writeToSyncStorage_raw ''badgeCounter'' (JNumber initialValue) b)
             else (v, b))"

definition incrementBadgeCounter_raw :: "jsnum option \<Rightarrow> browser \<Rightarrow> jsvalue \<times> browser" where
  "incrementBadgeCounter_raw increment b =
     (let increment = (case increment of None \<Rightarrow> Num 1 | Some d \<Rightarrow> d);
          (badgeCounter, b) = getBadgeCounter_raw None b;
          badgeCounter = plus badgeCounter increment;
          b = writeToSyncStorage_raw ''badgeCounter'' badgeCounter b
      in (badgeCounter, b))"

text \<open>
  The result is the list, or the error that ends the call, together with the state that
  the call leaves: what was written before an error stays written.
\<close>

definition removeSnooze_raw ::
    "string \<Rightarrow> snooze \<Rightarrow> browser \<Rightarrow> (error + snooze list) \<times> browser" where
  "removeSnooze_raw userId snooze b =
     (case getSnoozeList_raw userId b of
        Inl e \<Rightarrow> (Inl e, b)
      | Inr snoozeList \<Rightarrow>
          let updatedList = filter (\<lambda>s. id' s \<noteq> id' snooze) snoozeList;
              b = setSnoozeList_raw userId updatedList b;
              b = (if badgeCount snooze
                   then (let (badgeCounter, b) = incrementBadgeCounter_raw (Some (Num (- 1))) b
                         in sendMessage_raw ACTION_UPDATE_BADGE_COUNTER badgeCounter b)
                   else b)
          in (getSnoozeList_raw userId b, b))"

text \<open>
  \<^verbatim>\<open>COLOR_SECONDARY\<close> is a constant of \<^verbatim>\<open>../constants\<close>; it is a parameter here.
\<close>

definition updateBadgeCounterUI_raw :: "string \<Rightarrow> browser \<Rightarrow> browser" where
  "updateBadgeCounterUI_raw COLOR_SECONDARY b =
     (let (badgeCounter, b) = getBadgeCounter_raw None b;
          text = (if greaterThanZero badgeCounter then toStringMethod badgeCounter else []);
          b = b\<lparr>actionBadgeBackgroundColor := Some COLOR_SECONDARY\<rparr>;
          b = b\<lparr>actionBadgeText := Some text\<rparr>
      in b)"

subsection \<open>The typed store inside the untyped one\<close>

text \<open>
  A typed state as a state of this section: where a key holds an array the array is what
  the store holds, elsewhere the integer if there is one.
\<close>

definition untyped :: "chrome \<Rightarrow> browser" where
  "untyped c =
     \<lparr>syncItems = (\<lambda>k. case syncArrays c k of
                          Some xs \<Rightarrow> Some (JArray xs)
                        | None \<Rightarrow> map_option (\<lambda>n. JNumber (Num n)) (syncNumbers c k)),
      syncSetCalls = map (\<lambda>w. case w of
                          SetArray k xs \<Rightarrow> (k, JArray xs)
                        | SetNumber k n \<Rightarrow> (k, JNumber (Num n))) (syncSets c),
      runtimeMessages = map (\<lambda>(act, n). (act, JNumber (Num n))) (messages c),
      actionBadgeText = badgeText c,
      actionBadgeBackgroundColor = badgeBackgroundColor c\<rparr>"

section \<open>Notions of the specification\<close>

text \<open>
  The url query in the specification's words, to be compared with
  \<open>checkUrlAlreadySnoozed\<close>: the direction of the test is chosen by the lengths of the
  two strings.
\<close>

definition spec_isUrlSnoozed :: "string \<Rightarrow> string \<Rightarrow> chrome \<Rightarrow> bool" where
  "spec_isUrlSnoozed userId url' c =
     list_ex (\<lambda>snooze.
        if length (url snooze) > length url' then startsWith (url snooze) url'
        else startsWith url' (url snooze)) (getSnoozeList userId c)"


text \<open>
  The counter as the specification reads it in the untyped store: the number 0 when
  nothing is stored.
\<close>

definition storedCounter_raw :: "browser \<Rightarrow> jsvalue" where
  "storedCounter_raw b =
     (case syncItems b ''badgeCounter'' of None \<Rightarrow> JNumber (Num 0) | Some v \<Rightarrow> v)"

section \<open>Scenarios\<close>

text \<open>A new profile: nothing stored, nothing sent, no badge. The two records of the
  specification's scenarios follow.\<close>

definition freshChrome :: chrome where
  "freshChrome = \<lparr>syncArrays = Map.empty, syncNumbers = Map.empty, syncSets = [],
     messages = [], badgeText = None, badgeBackgroundColor = None\<rparr>"

definition snooze1 :: snooze where
  "snooze1 = \<lparr>id' = IdNum 1, url = ''https://a.com'', notifyAt = 200, badgeCount = True\<rparr>"

definition snooze2 :: snooze where
  "snooze2 = \<lparr>id' = IdNum 2, url = ''https://b.com'', notifyAt = 100, badgeCount = False\<rparr>"


text \<open>The counter at 3 and record 1 in the list of \<open>u\<close>.\<close>

definition counterAtThree :: chrome where
  "counterAtThree =
     snd (addSnooze ''u'' snooze1 (snd (incrementBadgeCounter (Some 3) freshChrome)))"

text \<open>One record whose url is longer than the url asked for.\<close>

definition longerStored :: chrome where
  "longerStored = snd (addSnooze ''u'' (snooze1\<lparr>url := ''https://a.com/x''\<rparr>) freshChrome)"

text \<open>The counter stored with the value 0: one increment, one decrement.\<close>

definition counterBackAtZero :: chrome where
  "counterBackAtZero =
     snd (incrementBadgeCounter (Some (- 1)) (snd (incrementBadgeCounter None freshChrome)))"

text \<open>
  The same for the untyped store: a new profile, a profile after \<open>increment(n)\<close>, and one
  that has the list of user \<open>u\<close> set as well.
\<close>

definition freshBrowser :: browser where
  "freshBrowser = \<lparr>syncItems = Map.empty, syncSetCalls = [], runtimeMessages = [],
     actionBadgeText = None, actionBadgeBackgroundColor = None\<rparr>"

definition browserWithCounter :: "int \<Rightarrow> browser" where
  "browserWithCounter n = snd (incrementBadgeCounter_raw (Some (Num n)) freshBrowser)"

definition browserWithList :: "snooze list \<Rightarrow> int \<Rightarrow> browser" where
  "browserWithList snoozeList n = setSnoozeList_raw ''u'' snoozeList (browserWithCounter n)"

section \<open>Reading and writing the typed store\<close>




lemma getBadgeCounter_frame:
  "syncArrays (snd (getBadgeCounter initialValue c)) = syncArrays c"
  "messages (snd (getBadgeCounter initialValue c)) = messages c"
  "badgeText (snd (getBadgeCounter initialValue c)) = badgeText c"
  "badgeBackgroundColor (snd (getBadgeCounter initialValue c)) = badgeBackgroundColor c"
  by (simp_all add: getBadgeCounter_def writeToSyncStorage_def Let_def split: option.split)










section \<open>Prefixes\<close>

lemma startsWith_prefix: "startsWith s searchString = prefix searchString s"
  by (auto simp add: startsWith_def prefix_def) (metis append_eq_conv_conj)

lemma directional_prefix:
  "(if length q < length a then prefix q a else prefix a q) = (prefix a q \<or> prefix q a)"
proof (cases "length q < length a")
  case True
  then have "\<not> prefix a q"
    using prefix_length_le [of a q] by auto
  with True show ?thesis by simp
next
  case False
  have "prefix a q" if "prefix q a"
  proof -
    from that False have "length q = length a"
      using prefix_length_le [of q a] by simp
    with that have "q = a"
      by (auto simp add: prefix_def)
    then show ?thesis by simp
  qed
  with False show ?thesis by auto
qed

lemma spec_isUrlSnoozed_prefix:
  "spec_isUrlSnoozed userId q c =
     (\<exists>s \<in> set (getSnoozeList userId c). prefix (url s) q \<or> prefix q (url s))"
  by (simp only: spec_isUrlSnoozed_def list_ex_iff startsWith_prefix directional_prefix)

lemma find_defined: "(find P xs \<noteq> None) = (\<exists>x \<in> set xs. P x)"
  by (induction xs) auto

lemma checkUrlAlreadySnoozed_NaN:
  assumes "StringToNumber q = NaN"
  shows "checkUrlAlreadySnoozed userId q c = (\<exists>s \<in> set (getSnoozeList userId c). prefix (url s) q)"
  unfolding checkUrlAlreadySnoozed_def Let_def find_defined
  by (simp add: assms startsWith_prefix)

section \<open>Rounding to a double\<close>

lemma bitLength_le: "i < 2 ^ k \<Longrightarrow> bitLength i \<le> k"
proof (induction k arbitrary: i)
  case 0
  then show ?case by (subst bitLength.simps) simp
next
  case (Suc k)
  show ?case
  proof (cases "i \<le> 0")
    case True
    then show ?thesis by (subst bitLength.simps) simp
  next
    case False
    from Suc.prems have "i div 2 < 2 ^ k" by simp
    then have "bitLength (i div 2) \<le> k" by (rule Suc.IH)
    with False show ?thesis by (subst bitLength.simps) simp
  qed
qed

lemma bitLength_gt: "2 ^ k \<le> i \<Longrightarrow> k < bitLength i"
proof (induction k arbitrary: i)
  case 0
  then show ?case by (subst bitLength.simps) simp
next
  case (Suc k)
  then have "2 ^ k \<le> i div 2" by simp
  then have "k < bitLength (i div 2)" by (rule Suc.IH)
  moreover have "0 < i"
  proof -
    have "(0::int) < 2 ^ Suc k" by simp
    with Suc.prems show ?thesis by linarith
  qed
  ultimately show ?case by (subst bitLength.simps) simp
qed

lemma bitLength_lower: "0 < i \<Longrightarrow> 2 ^ (bitLength i - 1) \<le> i"
proof (induction i rule: bitLength.induct)
  case (1 i)
  from "1.prems" have unfold: "bitLength i = Suc (bitLength (i div 2))"
    by (subst bitLength.simps) simp
  show ?case
  proof (cases "i div 2 \<le> 0")
    case True
    then have "bitLength (i div 2) = 0" by (subst bitLength.simps) simp
    with "1.prems" show ?thesis by (simp add: unfold)
  next
    case False
    then have positive: "0 < i div 2" by simp
    with "1.IH" "1.prems" have ih: "2 ^ (bitLength (i div 2) - 1) \<le> i div 2" by simp
    from positive have "0 < bitLength (i div 2)"
      by (subst bitLength.simps) simp
    then have "(2::int) ^ bitLength (i div 2) = 2 * 2 ^ (bitLength (i div 2) - 1)"
      by (cases "bitLength (i div 2)") simp_all
    with ih have "(2::int) ^ bitLength (i div 2) \<le> 2 * (i div 2)" by simp
    also have "\<dots> \<le> i" by simp
    finally show ?thesis by (simp add: unfold)
  qed
qed

lemma roundMagnitude_exact: "v \<le> 2 ^ 53 \<Longrightarrow> roundMagnitude v = v"
proof (cases "v < 2 ^ 53")
  case True
  then have "bitLength v \<le> 53" by (rule bitLength_le)
  then show ?thesis by (simp add: roundMagnitude_def)
next
  case False
  assume "v \<le> 2 ^ 53"
  with False have "v = 9007199254740992" by simp
  moreover have "roundMagnitude 9007199254740992 = 9007199254740992" by code_simp
  ultimately show ?thesis by simp
qed

lemma roundMagnitude_large:
  assumes "2 ^ 53 \<le> v"
  shows "2 ^ 53 \<le> roundMagnitude v"
proof -
  define shift where "shift = bitLength v - 53"
  from assms have long: "53 < bitLength v" by (rule bitLength_gt)
  have "(0::int) < 2 ^ 53" by simp
  with assms have "0 < v" by linarith
  then have "2 ^ (bitLength v - 1) \<le> v" by (rule bitLength_lower)
  moreover from long have "bitLength v - 1 = 52 + shift" by (simp add: shift_def)
  ultimately have lower: "2 ^ 52 * 2 ^ shift \<le> v" by (simp add: power_add)
  have "(2::int) ^ 52 \<le> v div 2 ^ shift"
  proof -
    from lower have "(2 ^ 52 * 2 ^ shift) div 2 ^ shift \<le> v div 2 ^ shift"
      by (rule zdiv_mono1) simp
    then show ?thesis by simp
  qed
  then have q: "(2::int) ^ 52 \<le> q" if "v div 2 ^ shift \<le> q" for q
    using that by simp
  have scaled: "2 ^ 52 * 2 ^ shift \<le> q * (2::int) ^ shift" if "v div 2 ^ shift \<le> q" for q
    using q [OF that] by (simp add: mult_right_mono)
  have least: "(2::int) ^ 53 \<le> 2 ^ 52 * 2 ^ shift"
  proof -
    have "(1::int) \<le> 2 ^ shift" by simp
    then have "(2::int) ^ 52 * 2 \<le> 2 ^ 52 * 2 ^ shift \<or> shift = 0"
      by (cases shift) simp_all
    moreover from long have "0 < shift" by (simp add: shift_def)
    ultimately show ?thesis by simp
  qed
  have "2 ^ 53 \<le> q * (2::int) ^ shift" if "v div 2 ^ shift \<le> q" for q
    using scaled [OF that] least by linarith
  with long show ?thesis
    by (simp add: roundMagnitude_def Let_def shift_def [symmetric])
qed

lemma toDouble_exact: "\<bar>i\<bar> \<le> 2 ^ 53 \<Longrightarrow> toDouble i = Num i"
proof -
  assume bound: "\<bar>i\<bar> \<le> 2 ^ 53"
  then have exact: "roundMagnitude \<bar>i\<bar> = \<bar>i\<bar>" by (rule roundMagnitude_exact)
  have "(2::int) ^ 53 < 2 ^ 1024" by simp
  with bound have "\<not> 2 ^ 1024 \<le> \<bar>i\<bar>" by linarith
  then show ?thesis by (simp add: toDouble_def exact Let_def)
qed

section \<open>Printed numbers\<close>

lemma digitValue_of_digit:
  assumes "0 \<le> d" and "d < 10"
  shows "digitValue (char_of (48 + d)) = Some (nat d)"
proof -
  have "48 + d = int (48 + nat d)" using assms by simp
  then have "char_of (48 + d) = char_of (48 + nat d)"
    by (simp only: char_of_nat)
  moreover have "digitValue (char_of (48 + nat d)) = Some (nat d)"
    using assms by (simp add: digitValue_def Let_def)
  ultimately show ?thesis by simp
qed

lemma isDigit_of_digit: "0 \<le> d \<Longrightarrow> d < 10 \<Longrightarrow> isDigit 10 (char_of (48 + (d::int)))"
  by (simp add: isDigit_def digitValue_of_digit)

lemma digitsValue_append1:
  "digitsValue base (ds @ [ch]) =
     (case digitValue ch of None \<Rightarrow> digitsValue base ds
      | Some d \<Rightarrow> digitsValue base ds * int base + int d)"
  unfolding digitsValue_def by simp

lemma digits_value:
  "0 \<le> i \<Longrightarrow> list_all (isDigit 10) (digits i) \<and> digitsValue 10 (digits i) = i"
proof (induction i rule: digits.induct)
  case (1 i)
  show ?case
  proof (cases "i < 10")
    case True
    then have "digits i = [char_of (48 + i)]"
      by (subst digits.simps) simp
    with True "1.prems" show ?thesis
      by (simp add: isDigit_of_digit digitsValue_def digitValue_of_digit)
  next
    case False
    then have unfold: "digits i = digits (i div 10) @ [char_of (48 + i mod 10)]"
      by (subst digits.simps) simp
    have last: "0 \<le> i mod 10" "i mod 10 < 10" by simp_all
    from False "1.IH" "1.prems" have ih: "list_all (isDigit 10) (digits (i div 10))"
      "digitsValue 10 (digits (i div 10)) = i div 10"
      by simp_all
    have "i div 10 * 10 + i mod 10 = i" by simp
    with ih last show ?thesis
      by (simp add: unfold digitsValue_append1 digitValue_of_digit isDigit_of_digit)
  qed
qed

lemma digits_nonempty: "digits i \<noteq> []"
  by (subst digits.simps) simp

lemma length_digits: "0 < k \<Longrightarrow> i < 10 ^ k \<Longrightarrow> length (digits i) \<le> k"
proof (induction k arbitrary: i)
  case 0
  then show ?case by simp
next
  case (Suc k)
  show ?case
  proof (cases "i < 10")
    case True
    then show ?thesis by (subst digits.simps) simp
  next
    case False
    then have unfold: "digits i = digits (i div 10) @ [char_of (48 + i mod 10)]"
      by (subst digits.simps) simp
    from False Suc.prems have "0 < k"
      by (cases k) simp_all
    moreover from Suc.prems have "i div 10 < 10 ^ k" by simp
    ultimately have "length (digits (i div 10)) \<le> k" by (rule Suc.IH)
    then show ?thesis by (simp add: unfold)
  qed
qed

lemma shortestFrom_exact:
  "0 < x \<Longrightarrow> x < 2 ^ 53 \<Longrightarrow> shortestFrom k d x = x"
proof (induction k d x rule: shortestFrom.induct)
  case (1 k d x)
  show ?case
  proof (cases "d \<le> k")
    case True
    then show ?thesis by (subst shortestFrom.simps) simp
  next
    case False
    define p :: int where "p = 10 ^ (d - k)"
    define lo where "lo = (x div p) * p"
    define hi where "hi = lo + p"
    have p: "0 < p" by (simp add: p_def)
    have remainder: "x - lo = x mod p"
      by (simp add: lo_def minus_div_mult_eq_mod)
    from remainder pos_mod_sign [OF p, of x] have lo: "lo \<le> x"
      by linarith
    from remainder pos_mod_bound [OF p, of x] have hi: "x < hi"
      unfolding hi_def by linarith
    from lo "1.prems" have "roundMagnitude lo = lo"
      by (intro roundMagnitude_exact) simp
    then have okLo: "lo = x" if "roundMagnitude lo = x" using that by simp
    have okHi: "roundMagnitude hi \<noteq> x"
    proof (cases "hi \<le> 2 ^ 53")
      case True
      then have "roundMagnitude hi = hi" by (rule roundMagnitude_exact)
      with hi show ?thesis by simp
    next
      case False
      then have "2 ^ 53 \<le> roundMagnitude hi"
        by (intro roundMagnitude_large) simp
      with "1.prems" show ?thesis by simp
    qed
    have rest: "shortestFrom (Suc k) d x = x" if "roundMagnitude lo \<noteq> x"
      using "1.IH" [OF False p_def lo_def [unfolded p_def [symmetric]] hi_def refl refl] that okHi "1.prems"
      by (simp add: lo_def p_def hi_def)
    show ?thesis
      using False okLo okHi rest
      by (subst shortestFrom.simps)
         (auto simp add: Let_def p_def [symmetric] lo_def [symmetric] hi_def [symmetric])
  qed
qed

lemma magnitudeToString_exact:
  assumes "0 < x" and "x < 2 ^ 53"
  shows "magnitudeToString x = digits x"
proof -
  have "(2::int) ^ 53 < 10 ^ 16" by simp
  with assms have "x < 10 ^ 16" by linarith
  then have "length (digits x) \<le> 16"
    by (intro length_digits) simp_all
  then show ?thesis
    by (simp add: magnitudeToString_def Let_def shortestFrom_exact [OF assms])
qed

section \<open>Reading and writing the untyped store\<close>

lemma getSnoozeList_raw_array:
  "syncItems b userId = Some (JArray stored) \<Longrightarrow>
     getSnoozeList_raw userId b = Inr (sort_key notifyAt stored)"
  by (simp add: getSnoozeList_raw_def getProperty_def)

lemma getSnoozeList_raw_cases:
  "getSnoozeList_raw userId b =
     (case getProperty (syncItems b) userId of
        Own (JArray stored) \<Rightarrow> Inr (sort_key notifyAt stored)
      | p \<Rightarrow> if truthy p then Inl TypeError else Inr [])"
  by (simp add: getSnoozeList_raw_def split: property.split jsvalue.split)

lemma getSnoozeList_raw_sorted:
  "getSnoozeList_raw userId b = Inr xs \<Longrightarrow> sorted (map notifyAt xs)"
  by (auto simp add: getSnoozeList_raw_cases split: property.splits jsvalue.splits if_splits)

lemma getBadgeCounter_raw_number:
  "storedCounter_raw b = JNumber (Num c) \<Longrightarrow>
     fst (getBadgeCounter_raw initialValue b) = JNumber (Num c)"
  by (auto simp add: getBadgeCounter_raw_def readFromSyncStorage_raw_def SK_BADGE_COUNTER_def
      storedCounter_raw_def Let_def split: option.splits)

lemma getBadgeCounter_raw_frame:
  "k \<noteq> ''badgeCounter'' \<Longrightarrow> syncItems (snd (getBadgeCounter_raw initialValue b)) k = syncItems b k"
  "runtimeMessages (snd (getBadgeCounter_raw initialValue b)) = runtimeMessages b"
  "actionBadgeText (snd (getBadgeCounter_raw initialValue b)) = actionBadgeText b"
  "actionBadgeBackgroundColor (snd (getBadgeCounter_raw initialValue b)) =
     actionBadgeBackgroundColor b"
  by (simp_all add: getBadgeCounter_raw_def writeToSyncStorage_raw_def Let_def
      split: option.split)

lemma incrementBadgeCounter_raw_fst:
  "storedCounter_raw b = JNumber (Num c) \<Longrightarrow>
     fst (incrementBadgeCounter_raw increment b) =
       JNumber (numberAdd (Num c) (case increment of None \<Rightarrow> Num 1 | Some d \<Rightarrow> d))"
  using getBadgeCounter_raw_number [of b c None]
  by (simp add: incrementBadgeCounter_raw_def Let_def split_def)

lemma incrementBadgeCounter_raw_stored:
  "syncItems (snd (incrementBadgeCounter_raw increment b)) ''badgeCounter'' =
     Some (fst (incrementBadgeCounter_raw increment b))"
  by (simp add: incrementBadgeCounter_raw_def writeToSyncStorage_raw_def Let_def split_def)

lemma incrementBadgeCounter_raw_frame:
  "k \<noteq> ''badgeCounter'' \<Longrightarrow>
     syncItems (snd (incrementBadgeCounter_raw increment b)) k = syncItems b k"
  "runtimeMessages (snd (incrementBadgeCounter_raw increment b)) = runtimeMessages b"
  by (simp_all add: incrementBadgeCounter_raw_def writeToSyncStorage_raw_def Let_def split_def
      getBadgeCounter_raw_frame)

text \<open>The state of \<open>removeSnooze_raw\<close> after its write and its counter update.\<close>

lemma removeSnooze_raw_run:
  assumes "getSnoozeList_raw userId b = Inr snoozeList"
  shows "removeSnooze_raw userId snooze b =
    (let b1 = setSnoozeList_raw userId (filter (\<lambda>s. id' s \<noteq> id' snooze) snoozeList) b;
         b2 = (if badgeCount snooze
               then sendMessage_raw ACTION_UPDATE_BADGE_COUNTER
                      (fst (incrementBadgeCounter_raw (Some (Num (- 1))) b1))
                      (snd (incrementBadgeCounter_raw (Some (Num (- 1))) b1))
               else b1)
     in (getSnoozeList_raw userId b2, b2))"
  by (simp add: removeSnooze_raw_def assms Let_def split_def)

lemma removeSnooze_raw_list:
  assumes "getSnoozeList_raw userId b = Inr snoozeList"
    and "userId \<noteq> ''badgeCounter'' \<or> \<not> badgeCount snooze"
  shows "syncItems (snd (removeSnooze_raw userId snooze b)) userId =
           Some (JArray (filter (\<lambda>s. id' s \<noteq> id' snooze) snoozeList))"
    and "fst (removeSnooze_raw userId snooze b) =
           Inr (filter (\<lambda>s. id' s \<noteq> id' snooze) snoozeList)"
proof -
  let ?kept = "filter (\<lambda>s. id' s \<noteq> id' snooze) snoozeList"
  define b1 where "b1 = setSnoozeList_raw userId ?kept b"
  define b2 where "b2 = (if badgeCount snooze
    then sendMessage_raw ACTION_UPDATE_BADGE_COUNTER
           (fst (incrementBadgeCounter_raw (Some (Num (- 1))) b1))
           (snd (incrementBadgeCounter_raw (Some (Num (- 1))) b1))
    else b1)"
  have run: "removeSnooze_raw userId snooze b = (getSnoozeList_raw userId b2, b2)"
    by (simp add: removeSnooze_raw_run [OF assms(1)] b1_def b2_def Let_def)
  have written: "syncItems b1 userId = Some (JArray ?kept)"
    by (simp add: b1_def setSnoozeList_raw_def)
  have kept: "syncItems b2 userId = Some (JArray ?kept)"
    using assms(2) written
    by (auto simp add: b2_def sendMessage_raw_def incrementBadgeCounter_raw_frame)
  have "sorted (map notifyAt ?kept)"
    using getSnoozeList_raw_sorted [OF assms(1)] by (simp add: sorted_filter)
  then have "sort_key notifyAt ?kept = ?kept"
    by (rule sort_key_id_if_sorted)
  with kept show "syncItems (snd (removeSnooze_raw userId snooze b)) userId = Some (JArray ?kept)"
    and "fst (removeSnooze_raw userId snooze b) = Inr ?kept"
    by (simp_all add: run getSnoozeList_raw_array)
qed

lemma removeSnooze_raw_counter:
  assumes "getSnoozeList_raw userId b = Inr snoozeList"
    and "userId \<noteq> ''badgeCounter''"
    and "badgeCount snooze"
    and "storedCounter_raw b = JNumber (Num c)"
  shows "syncItems (snd (removeSnooze_raw userId snooze b)) ''badgeCounter'' =
           Some (JNumber (toDouble (c - 1)))"
    and "runtimeMessages (snd (removeSnooze_raw userId snooze b)) =
           runtimeMessages b @ [(ACTION_UPDATE_BADGE_COUNTER, JNumber (toDouble (c - 1)))]"
proof -
  let ?kept = "filter (\<lambda>s. id' s \<noteq> id' snooze) snoozeList"
  define b1 where "b1 = setSnoozeList_raw userId ?kept b"
  define b2 where "b2 = snd (incrementBadgeCounter_raw (Some (Num (- 1))) b1)"
  have counter1: "storedCounter_raw b1 = JNumber (Num c)"
    using assms(2,4) by (simp add: b1_def setSnoozeList_raw_def storedCounter_raw_def)
  have returned: "fst (incrementBadgeCounter_raw (Some (Num (- 1))) b1) = JNumber (toDouble (c - 1))"
    using incrementBadgeCounter_raw_fst [OF counter1, of "Some (Num (- 1))"] by simp
  have run: "snd (removeSnooze_raw userId snooze b) =
      sendMessage_raw ACTION_UPDATE_BADGE_COUNTER (JNumber (toDouble (c - 1))) b2"
    using assms(3) by (simp add: removeSnooze_raw_run [OF assms(1)] b1_def b2_def Let_def returned [unfolded b1_def])
  have stored: "syncItems b2 ''badgeCounter'' = Some (JNumber (toDouble (c - 1)))"
    using incrementBadgeCounter_raw_stored [of "Some (Num (- 1))" b1] by (simp add: b2_def returned)
  have sent: "runtimeMessages b2 = runtimeMessages b"
    by (simp add: b2_def incrementBadgeCounter_raw_frame b1_def setSnoozeList_raw_def)
  show "syncItems (snd (removeSnooze_raw userId snooze b)) ''badgeCounter'' =
      Some (JNumber (toDouble (c - 1)))"
    and "runtimeMessages (snd (removeSnooze_raw userId snooze b)) =
      runtimeMessages b @ [(ACTION_UPDATE_BADGE_COUNTER, JNumber (toDouble (c - 1)))]"
    by (simp_all add: run sendMessage_raw_def stored sent)
qed

lemma removeSnooze_raw_plain:
  assumes "getSnoozeList_raw userId b = Inr snoozeList"
    and "\<not> badgeCount snooze"
  shows "k \<noteq> userId \<Longrightarrow> syncItems (snd (removeSnooze_raw userId snooze b)) k = syncItems b k"
    and "runtimeMessages (snd (removeSnooze_raw userId snooze b)) = runtimeMessages b"
  using assms(2)
  by (simp_all add: removeSnooze_raw_run [OF assms(1)] Let_def setSnoozeList_raw_def)

section \<open>Where the typed store is the untyped one\<close>

lemma untyped_getSnoozeList:
  assumes "syncNumbers c userId = None"
    and "userId \<notin> set objectPrototypeKeys \<or> syncArrays c userId \<noteq> None"
  shows "getSnoozeList_raw userId (untyped c) = Inr (getSnoozeList userId c)"
  using assms
  by (auto simp add: getSnoozeList_raw_def getSnoozeList_def getProperty_def untyped_def
      split: option.splits)

lemma untyped_setSnoozeList:
  "setSnoozeList_raw userId snoozeList (untyped c) = untyped (setSnoozeList userId snoozeList c)"
  by (auto simp add: setSnoozeList_raw_def setSnoozeList_def untyped_def fun_eq_iff
      split: option.splits)

lemma untyped_getBadgeCounter:
  assumes "syncArrays c ''badgeCounter'' = None"
  shows "getBadgeCounter_raw (map_option Num initialValue) (untyped c) =
    (JNumber (Num (fst (getBadgeCounter initialValue c))),
     untyped (snd (getBadgeCounter initialValue c)))"
  using assms
  by (auto simp add: getBadgeCounter_raw_def getBadgeCounter_def readFromSyncStorage_raw_def
      readFromSyncStorage_def writeToSyncStorage_raw_def writeToSyncStorage_def
      SK_BADGE_COUNTER_def untyped_def Let_def fun_eq_iff split: option.splits)

lemma untyped_incrementBadgeCounter:
  assumes "syncArrays c ''badgeCounter'' = None"
    and "\<bar>fst (incrementBadgeCounter increment c)\<bar> \<le> 2 ^ 53"
  shows "incrementBadgeCounter_raw (map_option Num increment) (untyped c) =
    (JNumber (Num (fst (incrementBadgeCounter increment c))),
     untyped (snd (incrementBadgeCounter increment c)))"
proof -
  define n where "n = fst (getBadgeCounter None c)"
  define c1 where "c1 = snd (getBadgeCounter None c)"
  define d where "d = (case increment of None \<Rightarrow> 1 | Some d \<Rightarrow> d)"
  have read: "getBadgeCounter_raw None (untyped c) = (JNumber (Num n), untyped c1)"
    using untyped_getBadgeCounter [OF assms(1), of None] by (simp add: n_def c1_def)
  have typed: "incrementBadgeCounter increment c = (n + d, writeToSyncStorage ''badgeCounter'' (n + d) c1)"
    by (simp add: incrementBadgeCounter_def Let_def split_def n_def c1_def d_def)
  with assms(2) have "toDouble (n + d) = Num (n + d)"
    by (simp add: toDouble_exact)
  moreover have "(case map_option Num increment of None \<Rightarrow> Num 1 | Some d \<Rightarrow> d) = Num d"
    by (cases increment) (simp_all add: d_def)
  moreover have "writeToSyncStorage_raw ''badgeCounter'' (JNumber (Num v)) (untyped c1) =
      untyped (writeToSyncStorage ''badgeCounter'' v c1)" for v
    using assms(1)
    by (auto simp add: writeToSyncStorage_raw_def writeToSyncStorage_def untyped_def fun_eq_iff
        c1_def getBadgeCounter_frame split: option.splits)
  ultimately show ?thesis
    by (simp add: incrementBadgeCounter_raw_def Let_def read typed)
qed


section \<open>Claims\<close>

text \<open>
  C1 (as amended). Let the user id be another key than the counter's, let the first read
  of the user's list succeed, and let the stored counter \<open>c\<close> (0 if absent) be an integer
  with \<open>-2^53 < c \<le> 2^53\<close>. Then \<open>removeSnooze\<close> stores the list it read without the
  records whose id is the id of the record passed and returns that list; if the record
  passed has \<open>badgeCount\<close> set, the counter stored afterwards is \<open>c - 1\<close> and \<open>c - 1\<close>
  is sent as a badge update; if it has not, neither the counter nor the messages change.
  So the counter is decremented and the message sent if and only if the record passed
  has the flag.
\<close>

theorem removeSnooze_raw_effect:
  assumes "getSnoozeList_raw userId b = Inr snoozeList"
    and "userId \<noteq> ''badgeCounter''"
    and "storedCounter_raw b = JNumber (Num c)"
    and "- (2 ^ 53) < c" and "c \<le> 2 ^ 53"
    and "removeSnooze_raw userId snooze b = (outcome, b')"
  shows "syncItems b' userId =
           Some (JArray (filter (\<lambda>s. id' s \<noteq> id' snooze) snoozeList)) \<and>
         outcome = Inr (filter (\<lambda>s. id' s \<noteq> id' snooze) snoozeList) \<and>
         (badgeCount snooze \<longrightarrow>
            syncItems b' ''badgeCounter'' = Some (JNumber (Num (c - 1))) \<and>
            runtimeMessages b' =
              runtimeMessages b @ [(ACTION_UPDATE_BADGE_COUNTER, JNumber (Num (c - 1)))]) \<and>
         (\<not> badgeCount snooze \<longrightarrow>
            syncItems b' ''badgeCounter'' = syncItems b ''badgeCounter'' \<and>
            runtimeMessages b' = runtimeMessages b)"
proof -
  have b': "b' = snd (removeSnooze_raw userId snooze b)"
    and outcome: "outcome = fst (removeSnooze_raw userId snooze b)"
    using assms(6) by simp_all
  from assms(4,5) have "\<bar>c - 1\<bar> \<le> 2 ^ 53" by simp
  then have exact: "toDouble (c - 1) = Num (c - 1)" by (rule toDouble_exact)
  from assms(2) have user: "userId \<noteq> ''badgeCounter'' \<or> \<not> badgeCount snooze" by simp
  note list = removeSnooze_raw_list [OF assms(1) user]
  have flagged: "syncItems b' ''badgeCounter'' = Some (JNumber (Num (c - 1))) \<and>
      runtimeMessages b' =
        runtimeMessages b @ [(ACTION_UPDATE_BADGE_COUNTER, JNumber (Num (c - 1)))]"
    if "badgeCount snooze"
    using removeSnooze_raw_counter [OF assms(1,2) that assms(3)] by (simp add: b' exact)
  have plain: "syncItems b' ''badgeCounter'' = syncItems b ''badgeCounter'' \<and>
      runtimeMessages b' = runtimeMessages b"
    if "\<not> badgeCount snooze"
    using removeSnooze_raw_plain [OF assms(1) that] assms(2) by (simp add: b')
  from list flagged plain show ?thesis
    by (simp add: b' outcome)
qed

text \<open>
  The scenario of the specification: the counter is at 3, \<open>remove(u, {id: 1, badgeCount:
  true})\<close> leaves it at 2 and sends the payload 2.
\<close>

theorem removeSnooze_raw_effect_witness:
  "getSnoozeList_raw ''u'' (browserWithList [snooze1] 3) = Inr [snooze1] \<and>
   storedCounter_raw (browserWithList [snooze1] 3) = JNumber (Num 3) \<and>
   badgeCount snooze1 \<and>
   fst (removeSnooze_raw ''u'' snooze1 (browserWithList [snooze1] 3)) = Inr [] \<and>
   syncItems (snd (removeSnooze_raw ''u'' snooze1 (browserWithList [snooze1] 3))) ''badgeCounter'' =
     Some (JNumber (Num 2)) \<and>
   runtimeMessages (snd (removeSnooze_raw ''u'' snooze1 (browserWithList [snooze1] 3))) =
     [(ACTION_UPDATE_BADGE_COUNTER, JNumber (Num 2))]"
proof -
  let ?b = "browserWithList [snooze1] 3"
  have read: "getSnoozeList_raw ''u'' ?b = Inr [snooze1]"
    and counter: "storedCounter_raw ?b = JNumber (Num 3)"
    and flag: "badgeCount snooze1"
    and sent: "runtimeMessages ?b = []"
    and kept: "filter (\<lambda>s. id' s \<noteq> id' snooze1) [snooze1] = []"
    by code_simp+
  have user: "''u'' \<noteq> ''badgeCounter''" by simp
  have run: "removeSnooze_raw ''u'' snooze1 ?b =
      (fst (removeSnooze_raw ''u'' snooze1 ?b), snd (removeSnooze_raw ''u'' snooze1 ?b))"
    by simp
  from removeSnooze_raw_effect [OF read user counter _ _ run] read counter flag sent kept
  show ?thesis by simp
qed

text \<open>
  C1 as stated fails. The only stored record with id 1 has no \<open>badgeCount\<close> flag, the
  record passed to remove has it, and the counter goes from 3 to 2 and the message is sent.
  Under the counter's own key the flagged removal on a new profile leaves the string
  \<^verbatim>\<open>-1\<close> where the list was stored and ends in a \<^verbatim>\<open>TypeError\<close>. With the counter at
  \<open>-2^53\<close> the decrement leaves it where it was.
\<close>

theorem removeSnooze_raw_flag_counterexample:
  "getSnoozeList_raw ''u'' (browserWithList [snooze1\<lparr>badgeCount := False\<rparr>] 3) =
     Inr [snooze1\<lparr>badgeCount := False\<rparr>] \<and>
   id' (snooze1\<lparr>badgeCount := False\<rparr>) = id' snooze1 \<and>
   \<not> badgeCount (snooze1\<lparr>badgeCount := False\<rparr>) \<and>
   storedCounter_raw (browserWithList [snooze1\<lparr>badgeCount := False\<rparr>] 3) = JNumber (Num 3) \<and>
   syncItems (snd (removeSnooze_raw ''u'' snooze1
       (browserWithList [snooze1\<lparr>badgeCount := False\<rparr>] 3))) ''badgeCounter'' =
     Some (JNumber (Num 2)) \<and>
   runtimeMessages (snd (removeSnooze_raw ''u'' snooze1
       (browserWithList [snooze1\<lparr>badgeCount := False\<rparr>] 3))) =
     [(ACTION_UPDATE_BADGE_COUNTER, JNumber (Num 2))] \<and>
   fst (removeSnooze_raw ''badgeCounter'' snooze1 freshBrowser) = Inl TypeError \<and>
   syncItems (snd (removeSnooze_raw ''badgeCounter'' snooze1 freshBrowser)) ''badgeCounter'' =
     Some (JString ''-1'') \<and>
   storedCounter_raw (browserWithList [snooze1] (- 9007199254740992)) =
     JNumber (Num (- 9007199254740992)) \<and>
   syncItems (snd (removeSnooze_raw ''u'' snooze1
       (browserWithList [snooze1] (- 9007199254740992)))) ''badgeCounter'' =
     Some (JNumber (Num (- 9007199254740992)))"
  by code_simp

text \<open>
  C2. With the record url \<^verbatim>\<open>https://a.com/x\<close> stored, the query \<^verbatim>\<open>https://a.com\<close> is a
  proper prefix of the longer stored url, so the specification answers true; the code
  compares the stored url's length with the query string itself, which is not a number,
  takes the second branch and answers false. In the other direction (\<^verbatim>\<open>https://a.com\<close>
  stored, \<^verbatim>\<open>https://a.com/x\<close> asked) the code answers true, and it answers false for a
  url that shares no prefix with the stored one.
\<close>

theorem checkUrlAlreadySnoozed_misses_longer_stored_url:
  "getSnoozeList ''u'' longerStored = [snooze1\<lparr>url := ''https://a.com/x''\<rparr>] \<and>
   StringToNumber ''https://a.com'' = NaN \<and>
   checkUrlAlreadySnoozed ''u'' ''https://a.com'' longerStored = False \<and>
   spec_isUrlSnoozed ''u'' ''https://a.com'' longerStored = True \<and>
   getSnoozeList ''u'' counterAtThree = [snooze1] \<and>
   checkUrlAlreadySnoozed ''u'' ''https://a.com/x'' counterAtThree = True \<and>
   checkUrlAlreadySnoozed ''u'' ''https://b.com'' counterAtThree = False"
  by code_simp







text \<open>
  C5 (as amended). If the store holds no entry under the user id, and the user id is not
  the name of a member that every object inherits, \<open>getSnoozeList\<close> returns the empty
  list; if the store holds an array under the user id, it returns the records of that
  array, each as often as it is stored, in ascending order of \<open>notifyAt\<close> (the stable
  sort of the array). It writes nothing, as it returns nothing but its result. It ends in a
  \<^verbatim>\<open>TypeError\<close> exactly when what it finds under the user id is truthy and not an array.
\<close>

theorem getSnoozeList_raw_result:
  "(syncItems b userId = None \<and> userId \<notin> set objectPrototypeKeys \<longrightarrow>
      getSnoozeList_raw userId b = Inr []) \<and>
   (\<forall>stored. syncItems b userId = Some (JArray stored) \<longrightarrow>
      getSnoozeList_raw userId b = Inr (sort_key notifyAt stored) \<and>
      sorted (map notifyAt (sort_key notifyAt stored)) \<and>
      mset (sort_key notifyAt stored) = mset stored) \<and>
   (getSnoozeList_raw userId b = Inl TypeError \<longleftrightarrow>
      truthy (getProperty (syncItems b) userId) \<and>
      (\<forall>stored. syncItems b userId \<noteq> Some (JArray stored)))"
proof -
  have absent: "getSnoozeList_raw userId b = Inr []"
    if "syncItems b userId = None" "userId \<notin> set objectPrototypeKeys"
    using that by (simp add: getSnoozeList_raw_def getProperty_def)
  have failing: "getSnoozeList_raw userId b = Inl TypeError \<longleftrightarrow>
      truthy (getProperty (syncItems b) userId) \<and>
      (\<forall>stored. syncItems b userId \<noteq> Some (JArray stored))"
    by (auto simp add: getSnoozeList_raw_cases getProperty_def
        split: property.splits jsvalue.splits option.splits if_splits)
  from absent failing show ?thesis
    by (simp add: getSnoozeList_raw_array)
qed

theorem getSnoozeList_raw_result_witness:
  "syncItems freshBrowser ''u'' = None \<and> ''u'' \<notin> set objectPrototypeKeys \<and>
   getSnoozeList_raw ''u'' freshBrowser = Inr [] \<and>
   syncItems (browserWithList [snooze1, snooze2] 3) ''u'' = Some (JArray [snooze1, snooze2]) \<and>
   getSnoozeList_raw ''u'' (browserWithList [snooze1, snooze2] 3) =
     Inr (sort_key notifyAt [snooze1, snooze2]) \<and>
   sort_key notifyAt [snooze1, snooze2] = [snooze2, snooze1]"
proof -
  have absent: "syncItems freshBrowser ''u'' = None" "''u'' \<notin> set objectPrototypeKeys"
    and present:
      "syncItems (browserWithList [snooze1, snooze2] 3) ''u'' = Some (JArray [snooze1, snooze2])"
    and order: "sort_key notifyAt [snooze1, snooze2] = [snooze2, snooze1]"
    by code_simp+
  from absent present order
    getSnoozeList_raw_result [of freshBrowser "''u''"]
    getSnoozeList_raw_result [of "browserWithList [snooze1, snooze2] 3" "''u''"]
  show ?thesis by blast
qed

text \<open>
  C5 as stated fails: with the counter at 3, the list of the user whose id is the counter's
  key cannot be read, and neither can the list of the user \<^verbatim>\<open>toString\<close> on a new profile.
\<close>

theorem getSnoozeList_raw_counterexample:
  "syncItems (browserWithCounter 3) ''badgeCounter'' = Some (JNumber (Num 3)) \<and>
   getSnoozeList_raw ''badgeCounter'' (browserWithCounter 3) = Inl TypeError \<and>
   syncItems freshBrowser ''toString'' = None \<and>
   getSnoozeList_raw ''toString'' freshBrowser = Inl TypeError"
  by code_simp




text \<open>
  C7 (as amended). Let the first read of the user's list succeed, let no record of that
  list have the id of the record passed to \<open>removeSnooze\<close>, and let the user id not be the
  counter's key or the record passed not have \<open>badgeCount\<close> set. Then the call returns the
  list that was read before it, and \<open>getSnoozeList\<close> reads that list after it: the same
  records in the same order.
\<close>

theorem removeSnooze_raw_unknown_id:
  assumes "getSnoozeList_raw userId b = Inr snoozeList"
    and "\<forall>s \<in> set snoozeList. id' s \<noteq> id' snooze"
    and "userId \<noteq> ''badgeCounter'' \<or> \<not> badgeCount snooze"
  shows "fst (removeSnooze_raw userId snooze b) = Inr snoozeList \<and>
         getSnoozeList_raw userId (snd (removeSnooze_raw userId snooze b)) = Inr snoozeList"
proof -
  have kept: "filter (\<lambda>s. id' s \<noteq> id' snooze) snoozeList = snoozeList"
    using assms(2) by (simp add: filter_id_conv)
  have "sort_key notifyAt snoozeList = snoozeList"
    using getSnoozeList_raw_sorted [OF assms(1)] by (rule sort_key_id_if_sorted)
  with removeSnooze_raw_list [OF assms(1,3), of] show ?thesis
    by (simp add: kept getSnoozeList_raw_array)
qed

text \<open>The string \<^verbatim>\<open>"1"\<close> is not the id of record 1, whose id is the number 1.\<close>

theorem removeSnooze_raw_unknown_id_witness:
  "getSnoozeList_raw ''u'' (browserWithList [snooze1, snooze2] 3) = Inr [snooze2, snooze1] \<and>
   map id' [snooze2, snooze1] = [IdNum 2, IdNum 1] \<and>
   ''u'' \<noteq> ''badgeCounter'' \<and>
   fst (removeSnooze_raw ''u'' (snooze1\<lparr>id' := IdStr ''1''\<rparr>)
     (browserWithList [snooze1, snooze2] 3)) = Inr [snooze2, snooze1] \<and>
   getSnoozeList_raw ''u''
     (snd (removeSnooze_raw ''u'' (snooze1\<lparr>id' := IdStr ''1''\<rparr>)
        (browserWithList [snooze1, snooze2] 3))) = Inr [snooze2, snooze1]"
proof -
  let ?b = "browserWithList [snooze1, snooze2] 3"
  have read: "getSnoozeList_raw ''u'' ?b = Inr [snooze2, snooze1]"
    and ids: "map id' [snooze2, snooze1] = [IdNum 2, IdNum 1]"
    and unknown: "\<forall>s \<in> set [snooze2, snooze1]. id' s \<noteq> id' (snooze1\<lparr>id' := IdStr ''1''\<rparr>)"
    by code_simp+
  have user: "''u'' \<noteq> ''badgeCounter'' \<or> \<not> badgeCount (snooze1\<lparr>id' := IdStr ''1''\<rparr>)"
    by simp
  from removeSnooze_raw_unknown_id [OF read unknown user] read ids show ?thesis
    by simp
qed

text \<open>
  C7 as stated fails under the counter's key: on a new profile the list of that user reads
  as empty, so no id is present in it; after the removal of a flagged record the key holds
  the string \<^verbatim>\<open>-1\<close>, the call has ended in a \<^verbatim>\<open>TypeError\<close>, and the list can no longer be
  read.
\<close>

theorem removeSnooze_raw_unknown_id_counterexample:
  "getSnoozeList_raw ''badgeCounter'' freshBrowser = Inr [] \<and>
   badgeCount snooze1 \<and>
   fst (removeSnooze_raw ''badgeCounter'' snooze1 freshBrowser) = Inl TypeError \<and>
   syncItems (snd (removeSnooze_raw ''badgeCounter'' snooze1 freshBrowser)) ''badgeCounter'' =
     Some (JString ''-1'') \<and>
   getSnoozeList_raw ''badgeCounter'' (snd (removeSnooze_raw ''badgeCounter'' snooze1 freshBrowser)) =
     Inl TypeError"
  by code_simp

text \<open>
  C8 (as amended). With \<open>c\<close> the stored counter, 0 if there is none, and \<open>d\<close> an integer
  that is a number of the language, such that \<open>c + d\<close> lies between \<open>-2^53\<close> and
  \<open>2^53\<close>, \<open>incrementBadgeCounter\<close> called with \<open>d\<close> returns \<open>c + d\<close> and leaves
  \<open>c + d\<close> in the store, with no lower bound at 0; called without an argument it adds 1.
\<close>

theorem incrementBadgeCounter_raw_adds:
  assumes "storedCounter_raw b = JNumber (Num c)"
  shows "(toDouble d = Num d \<and> \<bar>c + d\<bar> \<le> 2 ^ 53 \<longrightarrow>
            fst (incrementBadgeCounter_raw (Some (Num d)) b) = JNumber (Num (c + d)) \<and>
            syncItems (snd (incrementBadgeCounter_raw (Some (Num d)) b)) ''badgeCounter'' =
              Some (JNumber (Num (c + d)))) \<and>
         (\<bar>c + 1\<bar> \<le> 2 ^ 53 \<longrightarrow>
            fst (incrementBadgeCounter_raw None b) = JNumber (Num (c + 1)) \<and>
            syncItems (snd (incrementBadgeCounter_raw None b)) ''badgeCounter'' =
              Some (JNumber (Num (c + 1))))"
  using incrementBadgeCounter_raw_fst [OF assms, of "Some (Num d)"]
    incrementBadgeCounter_raw_fst [OF assms, of None]
  by (simp add: incrementBadgeCounter_raw_stored toDouble_exact)

text \<open>
  On a new profile \<open>increment()\<close> yields 1 and \<open>increment(-1)\<close> after it yields 0; a
  decrement on a new profile yields \<open>-1\<close>.
\<close>

theorem incrementBadgeCounter_raw_adds_witness:
  "storedCounter_raw freshBrowser = JNumber (Num 0) \<and>
   toDouble (- 1) = Num (- 1) \<and>
   fst (incrementBadgeCounter_raw None freshBrowser) = JNumber (Num 1) \<and>
   storedCounter_raw (snd (incrementBadgeCounter_raw None freshBrowser)) = JNumber (Num 1) \<and>
   fst (incrementBadgeCounter_raw (Some (Num (- 1)))
     (snd (incrementBadgeCounter_raw None freshBrowser))) = JNumber (Num 0) \<and>
   fst (incrementBadgeCounter_raw (Some (Num (- 1))) freshBrowser) = JNumber (Num (- 1)) \<and>
   syncItems (snd (incrementBadgeCounter_raw (Some (Num (- 1))) freshBrowser)) ''badgeCounter'' =
     Some (JNumber (Num (- 1)))"
proof -
  have fresh: "storedCounter_raw freshBrowser = JNumber (Num 0)"
    and one: "storedCounter_raw (snd (incrementBadgeCounter_raw None freshBrowser)) =
      JNumber (Num 1)"
    and step: "toDouble (- 1) = Num (- 1)"
    by code_simp+
  from incrementBadgeCounter_raw_adds [OF fresh, of "- 1"]
    incrementBadgeCounter_raw_adds [OF one, of "- 1"] fresh one step
  show ?thesis by simp
qed

text \<open>
  C8 as stated fails: with the counter at \<open>2^53\<close>, which is 9007199254740992,
  \<open>increment()\<close> returns and stores 9007199254740992 again, not the sum.
\<close>

theorem incrementBadgeCounter_raw_counterexample:
  "storedCounter_raw (browserWithCounter 9007199254740992) = JNumber (Num 9007199254740992) \<and>
   fst (incrementBadgeCounter_raw None (browserWithCounter 9007199254740992)) =
     JNumber (Num 9007199254740992) \<and>
   syncItems (snd (incrementBadgeCounter_raw None (browserWithCounter 9007199254740992)))
     ''badgeCounter'' = Some (JNumber (Num 9007199254740992))"
  by code_simp

text \<open>
  C9 (as amended). If the stored counter \<open>c\<close> (0 if none is stored) is an integer below
  \<open>2^53\<close>, \<open>updateBadgeCounterUI\<close> sets the badge text to the empty string when \<open>c\<close> is
  at most 0 and otherwise to the decimal digits of \<open>c\<close>: a string of digits that reads
  back as \<open>c\<close>. Whatever the store holds, it sets the badge background to the colour it
  is given.
\<close>

theorem updateBadgeCounterUI_raw_badge:
  "(\<forall>c. storedCounter_raw b = JNumber (Num c) \<and> c < 2 ^ 53 \<longrightarrow>
      actionBadgeText (updateBadgeCounterUI_raw color b) =
        Some (if c \<le> 0 then [] else digits c) \<and>
      (0 < c \<longrightarrow> DecimalDigits (digits c) = Some c)) \<and>
   actionBadgeBackgroundColor (updateBadgeCounterUI_raw color b) = Some color"
proof -
  have shown: "actionBadgeText (updateBadgeCounterUI_raw color b) =
      Some (if c \<le> 0 then [] else digits c)"
    if "storedCounter_raw b = JNumber (Num c)" and "c < 2 ^ 53" for c
  proof -
    have read: "fst (getBadgeCounter_raw None b) = JNumber (Num c)"
      using that(1) by (rule getBadgeCounter_raw_number)
    have printed: "magnitudeToString c = digits c" if "0 < c"
      using that \<open>c < 2 ^ 53\<close> by (rule magnitudeToString_exact)
    from read printed show ?thesis
      by (simp add: updateBadgeCounterUI_raw_def Let_def split_def)
  qed
  have reads_back: "DecimalDigits (digits c) = Some c" if "0 < c" for c
    using that digits_value [of c] by (simp add: DecimalDigits_def digits_nonempty)
  have colour: "actionBadgeBackgroundColor (updateBadgeCounterUI_raw color b) = Some color"
    by (simp add: updateBadgeCounterUI_raw_def Let_def split_def)
  from shown reads_back colour show ?thesis
    by blast
qed

text \<open>The counter at 3 shows as \<^verbatim>\<open>3\<close>; at 0 and at \<open>-1\<close> the badge text is empty.\<close>

theorem updateBadgeCounterUI_raw_badge_witness:
  "storedCounter_raw (browserWithCounter 3) = JNumber (Num 3) \<and>
   actionBadgeText (updateBadgeCounterUI_raw ''#6c757d'' (browserWithCounter 3)) = Some ''3'' \<and>
   actionBadgeBackgroundColor (updateBadgeCounterUI_raw ''#6c757d'' (browserWithCounter 3)) =
     Some ''#6c757d'' \<and>
   storedCounter_raw freshBrowser = JNumber (Num 0) \<and>
   actionBadgeText (updateBadgeCounterUI_raw ''#6c757d'' freshBrowser) = Some [] \<and>
   storedCounter_raw (browserWithCounter (- 1)) = JNumber (Num (- 1)) \<and>
   actionBadgeText (updateBadgeCounterUI_raw ''#6c757d'' (browserWithCounter (- 1))) = Some []"
proof -
  have three: "storedCounter_raw (browserWithCounter 3) = JNumber (Num 3)"
    and zero: "storedCounter_raw freshBrowser = JNumber (Num 0)"
    and negative: "storedCounter_raw (browserWithCounter (- 1)) = JNumber (Num (- 1))"
    and printed: "digits 3 = ''3''"
    by code_simp+
  have small: "(3::int) < 2 ^ 53" "(0::int) < 2 ^ 53" "(- 1::int) < 2 ^ 53"
    by simp_all
  from updateBadgeCounterUI_raw_badge [of "browserWithCounter 3" "''#6c757d''"]
    updateBadgeCounterUI_raw_badge [of freshBrowser "''#6c757d''"]
    updateBadgeCounterUI_raw_badge [of "browserWithCounter (- 1)" "''#6c757d''"]
    three zero negative small
  have "actionBadgeText (updateBadgeCounterUI_raw ''#6c757d'' (browserWithCounter 3)) =
      Some (digits 3)"
    and "actionBadgeBackgroundColor (updateBadgeCounterUI_raw ''#6c757d'' (browserWithCounter 3)) =
      Some ''#6c757d''"
    and "actionBadgeText (updateBadgeCounterUI_raw ''#6c757d'' freshBrowser) = Some []"
    and "actionBadgeText (updateBadgeCounterUI_raw ''#6c757d'' (browserWithCounter (- 1))) =
      Some []"
    by auto
  with three zero negative printed show ?thesis
    by simp
qed

text \<open>
  C9 as stated fails: with the counter at \<open>10^21\<close> the badge shows \<^verbatim>\<open>1e+21\<close>, and with the
  counter at \<open>2^60\<close>, which is 1152921504606846976, it shows the digits of another number.
\<close>

theorem updateBadgeCounterUI_raw_counterexample:
  "storedCounter_raw (browserWithCounter 1000000000000000000000) =
     JNumber (Num 1000000000000000000000) \<and>
   actionBadgeText (updateBadgeCounterUI_raw ''#6c757d'' (browserWithCounter 1000000000000000000000)) =
     Some ''1e+21'' \<and>
   storedCounter_raw (browserWithCounter 1152921504606846976) =
     JNumber (Num 1152921504606846976) \<and>
   actionBadgeText (updateBadgeCounterUI_raw ''#6c757d'' (browserWithCounter 1152921504606846976)) =
     Some ''1152921504606847000''"
  by code_simp

text \<open>
  C10. \<open>getBadgeCounter\<close> writes to the synced store whenever the counter's key is absent
  or holds 0: it then appends one write of the initial value (0 by default) under the
  counter's key and returns 0. When the key holds a number other than 0 it returns that
  number and leaves the whole state as it was.
\<close>

theorem getBadgeCounter_writes_when_falsy:
  "(syncNumbers c ''badgeCounter'' = None \<or> syncNumbers c ''badgeCounter'' = Some 0 \<longrightarrow>
      fst (getBadgeCounter initialValue c) = 0 \<and>
      syncSets (snd (getBadgeCounter initialValue c)) =
        syncSets c @ [SetNumber ''badgeCounter'' (case initialValue of None \<Rightarrow> 0 | Some v \<Rightarrow> v)] \<and>
      syncNumbers (snd (getBadgeCounter initialValue c)) ''badgeCounter'' =
        Some (case initialValue of None \<Rightarrow> 0 | Some v \<Rightarrow> v)) \<and>
   (\<forall>n. syncNumbers c ''badgeCounter'' = Some n \<and> n \<noteq> 0 \<longrightarrow>
      getBadgeCounter initialValue c = (n, c))"
  by (auto simp add: getBadgeCounter_def readFromSyncStorage_def SK_BADGE_COUNTER_def
      writeToSyncStorage_def Let_def)

theorem getBadgeCounter_writes_when_falsy_witness:
  "syncNumbers counterBackAtZero ''badgeCounter'' = Some 0 \<and>
   fst (getBadgeCounter None counterBackAtZero) = 0 \<and>
   syncSets (snd (getBadgeCounter None counterBackAtZero)) =
     syncSets counterBackAtZero @ [SetNumber ''badgeCounter'' 0] \<and>
   syncNumbers freshChrome ''badgeCounter'' = None \<and>
   syncSets (snd (getBadgeCounter None freshChrome)) = [SetNumber ''badgeCounter'' 0] \<and>
   syncNumbers counterAtThree ''badgeCounter'' = Some 3 \<and>
   getBadgeCounter None counterAtThree = (3, counterAtThree)"
proof -
  have zero: "syncNumbers counterBackAtZero ''badgeCounter'' = Some 0"
    and absent: "syncNumbers freshChrome ''badgeCounter'' = None"
    and three: "syncNumbers counterAtThree ''badgeCounter'' = Some 3"
    and log: "syncSets freshChrome = []"
    by code_simp+
  from zero absent three log
    getBadgeCounter_writes_when_falsy [of counterBackAtZero None]
    getBadgeCounter_writes_when_falsy [of freshChrome None]
    getBadgeCounter_writes_when_falsy [of counterAtThree None]
  show ?thesis
    by simp
qed

end
